theory Spec2Isabelle
  imports Main "HOL-Library.Sublist" "HOL-Library.Word"
begin

section \<open>JavaScript strings\<close>

text \<open>
  A JavaScript string is a sequence of 16-bit code units. The workflow only compares
  code units, concatenates strings and cuts them, so a string is a list of 16-bit words.
  \<open>js\<close> turns an ASCII literal of the source into such a list.
\<close>

type_synonym code_unit = "16 word"

type_synonym jsstring = "code_unit list"

definition js :: "string \<Rightarrow> jsstring" where
  "js s = map of_char s"

text \<open>\<^verbatim>\<open>s.split('\n')\<close>: the pieces between line feeds; the empty string gives one empty piece.\<close>

fun split_nl :: "jsstring \<Rightarrow> jsstring list" where
  "split_nl [] = [[]]"
| "split_nl (c # cs) =
     (if c = 0x0A then [] # split_nl cs
      else (case split_nl cs of [] \<Rightarrow> [[c]] | l # ls \<Rightarrow> (c # l) # ls))"

definition startsWith :: "jsstring \<Rightarrow> jsstring \<Rightarrow> bool" where
  "startsWith s p = prefix p s"

definition endsWith :: "jsstring \<Rightarrow> jsstring \<Rightarrow> bool" where
  "endsWith s p = suffix p s"

text \<open>
  \<^verbatim>\<open>v || d\<close> for an optional string \<open>v\<close>: \<open>undefined\<close> and the empty string are falsy.
\<close>

definition orElse :: "jsstring option \<Rightarrow> jsstring \<Rightarrow> jsstring" where
  "orElse v d = (case v of None \<Rightarrow> d | Some s \<Rightarrow> if s = [] then d else s)"

text \<open>A non-negative integer inside a template literal: its decimal digits.\<close>

fun showNat :: "nat \<Rightarrow> string" where
  "showNat n =
     (if n < 10 then [char_of (48 + n)]
      else showNat (n div 10) @ [char_of (48 + n mod 10)])"

declare showNat.simps [simp del]

section \<open>The regular expressions of the workflow\<close>

text \<open>
  Every pattern of the source is a sequence of literal texts and capturing groups of the
  form \<^verbatim>\<open>(C+)\<close> for a character class \<open>C\<close>. \<open>matchHere\<close> is the backtracking matcher
  anchored at the start of its input: a group first takes the longest run of class
  members and gives characters back one at a time, down to one, until the rest of the
  pattern matches. \<open>str_match\<close> is \<^verbatim>\<open>String.prototype.match\<close> without the global
  flag: the leftmost start position that matches wins; \<open>None\<close> is \<open>null\<close>, and
  \<open>Some caps\<close> holds the groups, \<open>caps ! 0\<close> being \<^verbatim>\<open>match[1]\<close>.
\<close>

datatype item = Lit jsstring | Cap "code_unit \<Rightarrow> bool"

fun firstSome :: "'a option list \<Rightarrow> 'a option" where
  "firstSome [] = None"
| "firstSome (None # rs) = firstSome rs"
| "firstSome (Some r # rs) = Some r"

fun matchHere :: "item list \<Rightarrow> jsstring \<Rightarrow> jsstring list option" where
  "matchHere [] s = Some []"
| "matchHere (Lit l # rest) s =
     (if prefix l s then matchHere rest (drop (length l) s) else None)"
| "matchHere (Cap cls # rest) s =
     firstSome
       (map (\<lambda>n. map_option ((#) (take n s)) (matchHere rest (drop n s)))
            (rev [1 ..< Suc (length (takeWhile cls s))]))"

fun str_match :: "item list \<Rightarrow> jsstring \<Rightarrow> jsstring list option" where
  "str_match p [] = matchHere p []"
| "str_match p (c # cs) =
     (case matchHere p (c # cs) of Some caps \<Rightarrow> Some caps | None \<Rightarrow> str_match p cs)"

text \<open>
  The class \<^verbatim>\<open>.\<close> (no \<^verbatim>\<open>s\<close> flag): every code unit but the four line terminators.
\<close>

definition dot :: "code_unit \<Rightarrow> bool" where
  "dot c = (c \<noteq> 0x0A \<and> c \<noteq> 0x0D \<and> c \<noteq> 0x2028 \<and> c \<noteq> 0x2029)"

text \<open>\<^verbatim>\<open>/diff --git a\/(.+) b\/(.+)/\<close>\<close>

definition diffPattern :: "item list" where
  "diffPattern = [Lit (js ''diff --git a/''), Cap dot, Lit (js '' b/''), Cap dot]"

text \<open>\<^verbatim>\<open>/github\.com\/([^\/]+)\/([^\/\?#]+)/\<close>\<close>

definition repoPattern :: "item list" where
  "repoPattern =
     [Lit (js ''github.com/''), Cap (\<lambda>c. c \<notin> set (js ''/'')),
      Lit (js ''/''), Cap (\<lambda>c. c \<notin> set (js ''/?#''))]"

text \<open>\<^verbatim>\<open>/github\.com\/([^\/]+)\/([^\/\?#]+)\.git/\<close>\<close>

definition repoGitPattern :: "item list" where
  "repoGitPattern =
     [Lit (js ''github.com/''), Cap (\<lambda>c. c \<notin> set (js ''/'')),
      Lit (js ''/''), Cap (\<lambda>c. c \<notin> set (js ''/?#'')), Lit (js ''.git'')]"

definition patterns :: "item list list" where
  "patterns = [repoPattern, repoGitPattern]"

section \<open>Data\<close>

text \<open>
  Errors are values. \<open>Error\<close> is what the workflow throws itself; \<open>TypeError\<close> and
  \<open>SyntaxError\<close> come from the engine and from \<^verbatim>\<open>fetch\<close> and \<^verbatim>\<open>json()\<close>;
  \<open>Thrown\<close> stands for a thrown value that is no instance of \<^verbatim>\<open>Error\<close>.
\<close>

datatype js_error = Error jsstring | TypeError jsstring | SyntaxError jsstring | Thrown

fun message :: "js_error \<Rightarrow> jsstring" where
  "message (Error m) = m"
| "message (TypeError m) = m"
| "message (SyntaxError m) = m"
| "message Thrown = []"

text \<open>
  The message of the \<open>TypeError\<close> for reading property \<open>p\<close> of \<open>undefined\<close>. The text is
  the engine's (here V8's), not the repository's.
\<close>

definition undefinedRead :: "string \<Rightarrow> jsstring" where
  "undefinedRead p =
     js (''Cannot read properties of undefined (reading '' @ [CHR 0x27] @ p @ [CHR 0x27] @ '')'')"

text \<open>
  The records of \<open>commitDetailSchema\<close>. The counts are numbers that the scanner only
  increases by one from zero and adds up, or that the remote API supplies as counts of
  lines, so they are natural numbers. \<open>patch\<close> is optional.
\<close>

record fileChange =
  filename :: jsstring
  additions :: nat
  deletions :: nat
  changes :: nat
  status :: jsstring
  patch :: "jsstring option"

record commitStats =
  stats_additions :: nat
  stats_deletions :: nat
  stats_total :: nat

record commitDetail =
  sha :: jsstring
  message_of :: jsstring
  author :: jsstring
  date :: jsstring
  url :: jsstring
  stats :: commitStats
  files :: "fileChange list"

text \<open>
  The input of the workflow. A field is \<open>None\<close> when the property is absent; the two
  shapes of the input schema are \<open>repoUrl\<close> alone, and \<open>diffContent\<close> with the three
  optional texts.
\<close>

record workflowInput =
  repoUrl :: "jsstring option"
  diffContent :: "jsstring option"
  commitMessage :: "jsstring option"
  authorName :: "jsstring option"
  commitSha :: "jsstring option"

text \<open>
  What \<open>parseRepoUrl\<close> hands to \<open>routeStep\<close>: \<^verbatim>\<open>{owner, repo, url}\<close>, or the record
  tagged \<^verbatim>\<open>type: 'diff'\<close> with \<open>diffContent\<close>, \<open>commitMessage\<close>, \<open>author\<close> and
  \<open>commitSha\<close> in this order.
\<close>

datatype routeInput =
    RepoInfo jsstring jsstring jsstring
  | DiffInput "jsstring option" "jsstring option" "jsstring option" "jsstring option"

text \<open>
  The remote API. A response carries the \<^verbatim>\<open>ok\<close> flag, the numeric status, the reason
  text and the outcome of \<^verbatim>\<open>json()\<close>. The bodies have the shapes of the interfaces
  \<^verbatim>\<open>GitHubCommit\<close> and \<^verbatim>\<open>GitHubCommitDetail\<close>, cut down to the properties that
  \<open>routeStep\<close> reads: \<open>detail_login\<close> is \<^verbatim>\<open>author?.login\<close>, \<open>detail_name\<close> and
  \<open>detail_date\<close> are \<^verbatim>\<open>commit.author.name\<close> and \<^verbatim>\<open>commit.author.date\<close>.
\<close>

record 'a response =
  ok :: bool
  status_code :: nat
  statusText :: jsstring
  json :: "js_error + 'a"

record listedCommit =
  listed_sha :: jsstring

record gitHubCommitDetail =
  detail_sha :: jsstring
  detail_message :: jsstring
  detail_login :: "jsstring option"
  detail_name :: jsstring
  detail_date :: jsstring
  detail_stats :: commitStats
  detail_files :: "fileChange list"

text \<open>
  Everything \<open>routeStep\<close> takes from outside: the clock
  (\<^verbatim>\<open>new Date().toISOString()\<close>) and the two requests, each a function from the
  requested URL to a thrown error or a response.
\<close>

record environment =
  now :: jsstring
  fetchCommits :: "jsstring \<Rightarrow> js_error + listedCommit list response"
  fetchDetail :: "jsstring \<Rightarrow> js_error + gitHubCommitDetail response"

section \<open>Step \<open>parse-repo-url\<close>\<close>

text \<open>
  The loop over \<open>patterns\<close>: the first pattern that matches sets \<open>owner\<close> and \<open>repo\<close>
  (with a final \<^verbatim>\<open>.git\<close> cut off) and ends the loop; both stay empty when none matches.
\<close>

fun tryPatterns :: "item list list \<Rightarrow> jsstring \<Rightarrow> jsstring \<times> jsstring" where
  "tryPatterns [] u = ([], [])"
| "tryPatterns (p # ps) u =
     (case str_match p u of
        Some m \<Rightarrow>
          (let owner = m ! 0; repo = m ! 1
           in (owner, if endsWith repo (js ''.git'') then take (length repo - 4) repo else repo))
      | None \<Rightarrow> tryPatterns ps u)"

fun parseRepoUrl :: "workflowInput option \<Rightarrow> js_error + routeInput" where
  "parseRepoUrl None = Inl (Error (js ''Input data not provided''))"
| "parseRepoUrl (Some inputData) =
     (case repoUrl inputData of
        Some u \<Rightarrow>
          (case tryPatterns patterns u of
             (owner, repo) \<Rightarrow>
               if owner = [] \<or> repo = []
               then Inl (Error (js ''Invalid GitHub URL format: '' @ u))
               else Inr (RepoInfo owner repo u))
      | None \<Rightarrow>
          Inr (DiffInput (diffContent inputData) (commitMessage inputData)
                 (authorName inputData) (commitSha inputData)))"

section \<open>Step \<open>route-step\<close>: the diff scanner\<close>

text \<open>
  The local variables of the loop over the lines. \<open>sc_currentFile\<close> is \<open>None\<close> while it
  is \<open>null\<close>.
\<close>

record scanner =
  sc_files :: "fileChange list"
  sc_currentFile :: "jsstring option"
  sc_additions :: nat
  sc_deletions :: nat
  sc_patch :: jsstring

text \<open>
  \<^verbatim>\<open>if (currentFile) files.push({...})\<close>: \<open>null\<close> and the empty string are falsy. The
  result is the list \<open>files\<close> after the statement.
\<close>

definition pushCurrent :: "scanner \<Rightarrow> fileChange list" where
  "pushCurrent st =
     (case sc_currentFile st of
        None \<Rightarrow> sc_files st
      | Some f \<Rightarrow>
          if f = [] then sc_files st
          else sc_files st @
            [\<lparr>filename = f, additions = sc_additions st, deletions = sc_deletions st,
              changes = sc_additions st + sc_deletions st, status = js ''modified'',
              patch = Some (sc_patch st)\<rparr>])"

text \<open>The body of the loop, for one line.\<close>

definition scanLine :: "scanner \<Rightarrow> jsstring \<Rightarrow> scanner" where
  "scanLine st line =
     (let st1 =
            (if startsWith line (js ''diff --git'') then
               \<lparr>sc_files = pushCurrent st,
                sc_currentFile =
                  Some (case str_match diffPattern line of Some m \<Rightarrow> m ! 1 | None \<Rightarrow> []),
                sc_additions = 0, sc_deletions = 0, sc_patch = []\<rparr>
             else st);
          st2 =
            (if startsWith line (js ''+'') \<and> \<not> startsWith line (js ''+++'') then
               st1\<lparr>sc_additions := sc_additions st1 + 1\<rparr>
             else if startsWith line (js ''-'') \<and> \<not> startsWith line (js ''---'') then
               st1\<lparr>sc_deletions := sc_deletions st1 + 1\<rparr>
             else st1)
      in st2\<lparr>sc_patch := sc_patch st2 @ line @ js ''\<newline>''\<rparr>)"

definition scanStart :: scanner where
  "scanStart =
     \<lparr>sc_files = [], sc_currentFile = None, sc_additions = 0, sc_deletions = 0, sc_patch = []\<rparr>"

text \<open>The loop over \<open>diffLines\<close> and the push after it: the final \<open>files\<close>.\<close>

definition parseLines :: "jsstring list \<Rightarrow> fileChange list" where
  "parseLines diffLines = pushCurrent (foldl scanLine scanStart diffLines)"

definition parseDiff :: "jsstring \<Rightarrow> fileChange list" where
  "parseDiff text = parseLines (split_nl text)"

text \<open>The two \<^verbatim>\<open>reduce\<close> calls and the \<open>stats\<close> object built from them.\<close>

definition aggregate :: "fileChange list \<Rightarrow> commitStats" where
  "aggregate fs =
     (let totalAdditions = foldl (\<lambda>sum file. sum + additions file) 0 fs;
          totalDeletions = foldl (\<lambda>sum file. sum + deletions file) 0 fs
      in \<lparr>stats_additions = totalAdditions, stats_deletions = totalDeletions,
          stats_total = totalAdditions + totalDeletions\<rparr>)"

section \<open>Step \<open>route-step\<close>: the remote commit\<close>

definition apiError :: "'a response \<Rightarrow> js_error" where
  "apiError r =
     Error (js ''GitHub API error: '' @ js (showNat (status_code r)) @ js '' '' @ statusText r)"

definition commitsUrl :: "jsstring \<Rightarrow> jsstring \<Rightarrow> jsstring" where
  "commitsUrl owner repo =
     js ''https://api.github.com/repos/'' @ owner @ js ''/'' @ repo @ js ''/commits?per_page=5''"

definition detailUrl :: "jsstring \<Rightarrow> jsstring \<Rightarrow> jsstring \<Rightarrow> jsstring" where
  "detailUrl owner repo s =
     js ''https://api.github.com/repos/'' @ owner @ js ''/'' @ repo @ js ''/commits/'' @ s"

text \<open>The object returned from the \<^verbatim>\<open>try\<close> block.\<close>

definition reshape :: "jsstring \<Rightarrow> jsstring \<Rightarrow> gitHubCommitDetail \<Rightarrow> commitDetail" where
  "reshape owner repo d =
     \<lparr>sha = detail_sha d,
      message_of = detail_message d,
      author = orElse (detail_login d) (detail_name d),
      date = detail_date d,
      url = js ''https://github.com/'' @ owner @ js ''/'' @ repo @ js ''/commit/'' @ detail_sha d,
      stats = detail_stats d,
      files =
        map (\<lambda>file. \<lparr>filename = filename file, additions = additions file,
                      deletions = deletions file, changes = changes file,
                      status = status file, patch = patch file\<rparr>)
            (detail_files d)\<rparr>"

text \<open>
  The \<^verbatim>\<open>try\<close> block. Reading \<^verbatim>\<open>latestCommit.sha\<close> when \<^verbatim>\<open>commits[0]\<close> is
  \<open>undefined\<close> throws the engine's \<open>TypeError\<close>, before the second request is sent.
\<close>

definition tryFetch :: "environment \<Rightarrow> jsstring \<Rightarrow> jsstring \<Rightarrow> js_error + commitDetail" where
  "tryFetch env owner repo =
     (case fetchCommits env (commitsUrl owner repo) of
        Inl e \<Rightarrow> Inl e
      | Inr response \<Rightarrow>
          if \<not> ok response then Inl (apiError response)
          else
            (case json response of
               Inl e \<Rightarrow> Inl e
             | Inr commits \<Rightarrow>
                 (case commits of
                    [] \<Rightarrow> Inl (TypeError (undefinedRead ''sha''))
                  | latestCommit # _ \<Rightarrow>
                      (case fetchDetail env (detailUrl owner repo (listed_sha latestCommit)) of
                         Inl e \<Rightarrow> Inl e
                       | Inr detailResponse \<Rightarrow>
                           if \<not> ok detailResponse then Inl (apiError detailResponse)
                           else
                             (case json detailResponse of
                                Inl e \<Rightarrow> Inl e
                              | Inr d \<Rightarrow> Inr (reshape owner repo d))))))"

text \<open>
  The \<^verbatim>\<open>catch\<close> clause:
  \<^verbatim>\<open>error instanceof Error ? error.message : 'Unknown error'\<close> behind the fixed prefix.
\<close>

definition rethrow :: "js_error \<Rightarrow> js_error" where
  "rethrow e =
     Error (js ''Failed to fetch commit details: '' @
            (case e of Thrown \<Rightarrow> js ''Unknown error'' | _ \<Rightarrow> message e))"

section \<open>Step \<open>route-step\<close>\<close>

text \<open>
  Calling \<^verbatim>\<open>split\<close> on an absent \<open>diffContent\<close> throws the engine's \<open>TypeError\<close>,
  outside every \<^verbatim>\<open>try\<close>.
\<close>

fun routeStep :: "environment \<Rightarrow> routeInput option \<Rightarrow> js_error + commitDetail" where
  "routeStep env None = Inl (Error (js ''Input data not provided''))"
| "routeStep env (Some (DiffInput content msg auth csha)) =
     (case content of
        None \<Rightarrow> Inl (TypeError (undefinedRead ''split''))
      | Some text \<Rightarrow>
          (let fs = parseDiff text
           in Inr \<lparr>sha = orElse csha (js ''direct-diff''),
                   message_of = orElse msg (js ''Direct diff review''),
                   author = orElse auth (js ''Unknown''),
                   date = now env,
                   url = [],
                   stats = aggregate fs,
                   files = fs\<rparr>))"
| "routeStep env (Some (RepoInfo owner repo u)) =
     (case tryFetch env owner repo of
        Inl e \<Rightarrow> Inl (rethrow e)
      | Inr detail \<Rightarrow> Inr detail)"

text \<open>
  The first two steps of \<open>codeReviewWorkflow\<close> in sequence,
  \<^verbatim>\<open>.then(parseRepoUrl).then(routeStep)\<close>: the normalization of an input into a
  commit detail. A step that throws ends the run.
\<close>

definition normalize :: "environment \<Rightarrow> workflowInput \<Rightarrow> js_error + commitDetail" where
  "normalize env inputData =
     (case parseRepoUrl (Some inputData) of
        Inl e \<Rightarrow> Inl e
      | Inr r \<Rightarrow> routeStep env (Some r))"

section \<open>The scanner's sections, as the specification words them\<close>

text \<open>
  A marker is a line that begins with \<^verbatim>\<open>diff --git\<close>; \<open>markerName\<close> is the file name
  that the scanner takes from it (empty when the pattern finds no match). The
  specification counts a line as an addition when it begins with \<^verbatim>\<open>+\<close> but not with
  \<^verbatim>\<open>+++\<close>, and as a deletion when it begins with \<^verbatim>\<open>-\<close> but not with \<^verbatim>\<open>---\<close>.
\<close>

definition isMarker :: "jsstring \<Rightarrow> bool" where
  "isMarker line = startsWith line (js ''diff --git'')"

definition isAddition :: "jsstring \<Rightarrow> bool" where
  "isAddition line = (startsWith line (js ''+'') \<and> \<not> startsWith line (js ''+++''))"

definition isDeletion :: "jsstring \<Rightarrow> bool" where
  "isDeletion line = (startsWith line (js ''-'') \<and> \<not> startsWith line (js ''---''))"

definition markerName :: "jsstring \<Rightarrow> jsstring" where
  "markerName line = (case str_match diffPattern line of Some m \<Rightarrow> m ! 1 | None \<Rightarrow> [])"

text \<open>
  The sections of a list of lines: each marker with the lines after it up to, and
  without, the next marker. Lines before the first marker belong to no section.
\<close>

fun spec_sections :: "jsstring list \<Rightarrow> (jsstring \<times> jsstring list) list" where
  "spec_sections [] = []"
| "spec_sections (l # ls) =
     (if isMarker l then (l, takeWhile (\<lambda>x. \<not> isMarker x) ls) # spec_sections ls
      else spec_sections ls)"

text \<open>The patch text of some lines: every line followed by a line feed.\<close>

definition spec_patch :: "jsstring list \<Rightarrow> jsstring" where
  "spec_patch ls = concat (map (\<lambda>l. l @ js ''\<newline>'') ls)"

text \<open>The record that the specification emits for a section, and whether it emits one.\<close>

definition spec_file :: "jsstring \<times> jsstring list \<Rightarrow> fileChange" where
  "spec_file sec =
     \<lparr>filename = markerName (fst sec),
      additions = length (filter isAddition (snd sec)),
      deletions = length (filter isDeletion (snd sec)),
      changes = length (filter isAddition (snd sec)) + length (filter isDeletion (snd sec)),
      status = js ''modified'',
      patch = Some (spec_patch (fst sec # snd sec))\<rparr>"

definition spec_emitted :: "jsstring \<times> jsstring list \<Rightarrow> bool" where
  "spec_emitted sec = (markerName (fst sec) \<noteq> [])"

section \<open>Inputs and environments of the scenarios\<close>

text \<open>The two shapes of the input, with the optional texts absent.\<close>

definition shapeA :: "jsstring \<Rightarrow> workflowInput" where
  "shapeA u =
     \<lparr>repoUrl = Some u, diffContent = None, commitMessage = None, authorName = None,
      commitSha = None\<rparr>"

definition shapeB :: "jsstring \<Rightarrow> workflowInput" where
  "shapeB d =
     \<lparr>repoUrl = None, diffContent = Some d, commitMessage = None, authorName = None,
      commitSha = None\<rparr>"

text \<open>The diff text of the first end-to-end scenario.\<close>

definition scenarioDiff :: jsstring where
  "scenarioDiff =
     js ''diff --git a/src/a.js b/src/a.js\<newline>--- a/src/a.js\<newline>+++ b/src/a.js\<newline>@@ -1,2 +1,3 @@\<newline> x\<newline>+y\<newline>-z''"

text \<open>
  A diff text with three markers, the second of which the pattern does not match, cut
  into the lines before that marker, the marker, the lines of its section and the rest.
\<close>

definition unmatchedPre :: "jsstring list" where
  "unmatchedPre = [js ''diff --git a/x.js b/x.js'', js ''+a'']"

definition unmatchedMarker :: jsstring where
  "unmatchedMarker = js ''diff --git x.js''"

definition unmatchedBody :: "jsstring list" where
  "unmatchedBody = [js ''+b'', js ''+c'', js ''-d'']"

definition unmatchedPost :: "jsstring list" where
  "unmatchedPost = [js ''diff --git a/y.js b/y.js'', js ''-e'']"

definition unmatchedDiff :: jsstring where
  "unmatchedDiff =
     js ''diff --git a/x.js b/x.js\<newline>+a\<newline>diff --git x.js\<newline>+b\<newline>+c\<newline>-d\<newline>diff --git a/y.js b/y.js\<newline>-e''"

text \<open>A diff text with two lines before its only marker.\<close>

definition preambleDiff :: jsstring where
  "preambleDiff =
     js ''From: a contributor\<newline>+not in any file\<newline>diff --git a/x.js b/x.js\<newline>+a''"

text \<open>
  Responses of the remote API. The body of a failed response is never read. In
  \<open>sampleDetail\<close> the statistics count more lines than the listed files do, as for a
  commit whose file list the API has cut short.
\<close>

definition okResponse :: "'a \<Rightarrow> 'a response" where
  "okResponse body = \<lparr>ok = True, status_code = 200, statusText = js ''OK'', json = Inr body\<rparr>"

definition failedResponse :: "nat \<Rightarrow> string \<Rightarrow> 'a \<Rightarrow> 'a response" where
  "failedResponse code reason body =
     \<lparr>ok = False, status_code = code, statusText = js reason, json = Inr body\<rparr>"

definition sampleDetail :: gitHubCommitDetail where
  "sampleDetail =
     \<lparr>detail_sha = js ''abc123'', detail_message = js ''Fix parser'',
      detail_login = Some (js ''octocat''), detail_name = js ''The Octocat'',
      detail_date = js ''2024-01-01T00:00:00Z'',
      detail_stats = \<lparr>stats_additions = 3, stats_deletions = 1, stats_total = 4\<rparr>,
      detail_files =
        [\<lparr>filename = js ''src/a.js'', additions = 1, deletions = 1, changes = 2,
          status = js ''modified'', patch = None\<rparr>]\<rparr>"

definition sampleEnv :: environment where
  "sampleEnv =
     \<lparr>now = js ''2024-01-02T00:00:00.000Z'',
      fetchCommits = (\<lambda>u. Inr (okResponse [\<lparr>listed_sha = js ''abc123''\<rparr>])),
      fetchDetail = (\<lambda>u. Inr (okResponse sampleDetail))\<rparr>"

definition notFoundEnv :: environment where
  "notFoundEnv = sampleEnv\<lparr>fetchCommits := (\<lambda>u. Inr (failedResponse 404 ''Not Found'' []))\<rparr>"

definition forbiddenEnv :: environment where
  "forbiddenEnv =
     sampleEnv\<lparr>fetchDetail := (\<lambda>u. Inr (failedResponse 403 ''Forbidden'' sampleDetail))\<rparr>"

definition emptyListEnv :: environment where
  "emptyListEnv = sampleEnv\<lparr>fetchCommits := (\<lambda>u. Inr (okResponse []))\<rparr>"

text \<open>An input that has both \<open>repoUrl\<close> and \<open>diffContent\<close>.\<close>

definition bothShapes :: workflowInput where
  "bothShapes =
     \<lparr>repoUrl = Some (js ''https://github.com/acme/widgets''), diffContent = Some scenarioDiff,
      commitMessage = Some (js ''Add y''), authorName = None, commitSha = None\<rparr>"

section \<open>The scanner computes the sections\<close>

text \<open>
  A marker line begins with the letter d, so it is never counted; a line is never both
  an addition and a deletion, so the order of the two tests of the loop does not matter.
\<close>

lemma marker_not_counted: "isMarker l \<Longrightarrow> \<not> isAddition l \<and> \<not> isDeletion l"
  by (auto simp: isMarker_def isAddition_def isDeletion_def startsWith_def js_def prefix_def)

lemma addition_not_deletion: "isAddition l \<Longrightarrow> \<not> isDeletion l"
  by (auto simp: isAddition_def isDeletion_def startsWith_def js_def prefix_def)

lemma scanLine_plain:
  "\<not> isMarker l \<Longrightarrow>
   scanLine st l =
     st\<lparr>sc_additions := sc_additions st + (if isAddition l then 1 else 0),
        sc_deletions := sc_deletions st + (if isDeletion l then 1 else 0),
        sc_patch := sc_patch st @ l @ js ''\<newline>''\<rparr>"
  using addition_not_deletion [of l]
  by (simp add: scanLine_def Let_def isMarker_def isAddition_def isDeletion_def)

lemma scanLine_marker:
  "isMarker l \<Longrightarrow>
   scanLine st l =
     \<lparr>sc_files = pushCurrent st, sc_currentFile = Some (markerName l),
      sc_additions = 0, sc_deletions = 0, sc_patch = l @ js ''\<newline>''\<rparr>"
  using marker_not_counted [of l]
  by (simp add: scanLine_def Let_def isMarker_def isAddition_def isDeletion_def markerName_def)

lemma foldl_scanLine_plain:
  "list_all (\<lambda>l. \<not> isMarker l) ls \<Longrightarrow>
   foldl scanLine st ls =
     st\<lparr>sc_additions := sc_additions st + length (filter isAddition ls),
        sc_deletions := sc_deletions st + length (filter isDeletion ls),
        sc_patch := sc_patch st @ spec_patch ls\<rparr>"
proof (induction ls arbitrary: st)
  case Nil
  show ?case by (simp add: spec_patch_def)
next
  case (Cons l ls)
  then show ?case by (simp add: scanLine_plain spec_patch_def)
qed

lemma pushCurrent_section:
  "pushCurrent
     \<lparr>sc_files = fs, sc_currentFile = Some (markerName m),
      sc_additions = length (filter isAddition body),
      sc_deletions = length (filter isDeletion body),
      sc_patch = spec_patch (m # body)\<rparr> =
   fs @ map spec_file (filter spec_emitted [(m, body)])"
  by (simp add: pushCurrent_def spec_file_def spec_emitted_def)

lemma list_all_takeWhile: "list_all P (takeWhile P xs)"
  by (induction xs) auto

lemma scan_sections:
  "pushCurrent (foldl scanLine st ls) =
   pushCurrent (foldl scanLine st (takeWhile (\<lambda>l. \<not> isMarker l) ls)) @
   map spec_file (filter spec_emitted (spec_sections ls))"
proof (induction ls arbitrary: st)
  case Nil
  show ?case by simp
next
  case (Cons l ls)
  show ?case
  proof (cases "isMarker l")
    case False
    then show ?thesis using Cons.IH [of "scanLine st l"] by simp
  next
    case True
    let ?body = "takeWhile (\<lambda>l. \<not> isMarker l) ls"
    have "foldl scanLine (scanLine st l) ?body =
          \<lparr>sc_files = pushCurrent st, sc_currentFile = Some (markerName l),
           sc_additions = length (filter isAddition ?body),
           sc_deletions = length (filter isDeletion ?body),
           sc_patch = spec_patch (l # ?body)\<rparr>"
      using True by (simp add: foldl_scanLine_plain list_all_takeWhile scanLine_marker spec_patch_def)
    then have "pushCurrent (foldl scanLine (scanLine st l) ?body) =
          pushCurrent st @ map spec_file (filter spec_emitted [(l, ?body)])"
      by (simp only: pushCurrent_section)
    then show ?thesis using True Cons.IH [of "scanLine st l"] by simp
  qed
qed

lemma parseLines_sections:
  "parseLines ls = map spec_file (filter spec_emitted (spec_sections ls))"
proof -
  have "pushCurrent (foldl scanLine scanStart (takeWhile (\<lambda>l. \<not> isMarker l) ls)) = []"
    by (simp add: foldl_scanLine_plain list_all_takeWhile pushCurrent_def scanStart_def)
  then show ?thesis by (simp add: parseLines_def scan_sections [of scanStart ls])
qed

lemma spec_sections_plain: "list_all (\<lambda>l. \<not> isMarker l) ls \<Longrightarrow> spec_sections ls = []"
  by (induction ls) auto

lemma spec_sections_skip:
  "list_all (\<lambda>l. \<not> isMarker l) pre \<Longrightarrow> spec_sections (pre @ rest) = spec_sections rest"
  by (induction pre) auto

lemma takeWhile_before_marker:
  "(case post of [] \<Rightarrow> True | p # _ \<Rightarrow> isMarker p) \<Longrightarrow>
   takeWhile (\<lambda>l. \<not> isMarker l) (xs @ post) = takeWhile (\<lambda>l. \<not> isMarker l) xs"
  by (induction xs) (auto split: list.splits)

lemma spec_sections_append:
  "(case post of [] \<Rightarrow> True | p # _ \<Rightarrow> isMarker p) \<Longrightarrow>
   spec_sections (xs @ post) = spec_sections xs @ spec_sections post"
  by (induction xs) (simp_all add: takeWhile_before_marker)

lemma takeWhile_all: "list_all P xs \<Longrightarrow> takeWhile P xs = xs"
  by (induction xs) auto

section \<open>The two repository patterns\<close>

text \<open>
  The second pattern is the first with one more literal at its end, so it matches
  nowhere when the first does not: a pattern that matches still matches when items are
  taken from its end.
\<close>

lemma firstSome_None: "firstSome rs = None \<longleftrightarrow> list_all (\<lambda>r. r = None) rs"
  by (induction rs rule: firstSome.induct) auto

lemma firstSome_Some: "firstSome rs = Some r \<Longrightarrow> Some r \<in> set rs"
  by (induction rs rule: firstSome.induct) auto

lemma matchHere_shorter:
  "matchHere (p @ q) s = Some c \<Longrightarrow> \<exists>c'. matchHere p s = Some c'"
proof (induction p s arbitrary: c rule: matchHere.induct)
  case (1 s)
  show ?case by simp
next
  case (2 l rest s)
  then show ?case by (auto split: if_splits)
next
  case (3 cls rest s)
  define ns where "ns = rev [1 ..< Suc (length (takeWhile cls s))]"
  from "3.prems"
  have "firstSome (map (\<lambda>n. map_option ((#) (take n s)) (matchHere (rest @ q) (drop n s))) ns) = Some c"
    unfolding ns_def by (simp only: matchHere.simps append_Cons)
  then have "Some c \<in> set (map (\<lambda>n. map_option ((#) (take n s)) (matchHere (rest @ q) (drop n s))) ns)"
    by (rule firstSome_Some)
  then obtain n where n: "n \<in> set ns"
    and "Some c = map_option ((#) (take n s)) (matchHere (rest @ q) (drop n s))"
    unfolding set_map by blast
  then obtain c0 where c0: "matchHere (rest @ q) (drop n s) = Some c0"
    by (cases "matchHere (rest @ q) (drop n s)") simp_all
  from "3.IH" [OF n [unfolded ns_def] c0] obtain c1 where "matchHere rest (drop n s) = Some c1"
    by blast
  with n have "\<not> list_all (\<lambda>r. r = None) (map (\<lambda>n. map_option ((#) (take n s)) (matchHere rest (drop n s))) ns)"
    unfolding list_all_iff set_map by force
  then have "firstSome (map (\<lambda>n. map_option ((#) (take n s)) (matchHere rest (drop n s))) ns) \<noteq> None"
    using firstSome_None by blast
  then show ?case unfolding ns_def by (simp only: matchHere.simps not_None_eq)
qed

lemma str_match_shorter:
  "str_match (p @ q) s = Some c \<Longrightarrow> \<exists>c'. str_match p s = Some c'"
proof (induction s)
  case Nil
  then show ?case using matchHere_shorter by simp
next
  case (Cons a s)
  then show ?case using matchHere_shorter [of p q "a # s"]
    by (auto split: option.splits)
qed

lemma repoGitPattern_fails:
  "str_match repoPattern u = None \<Longrightarrow> str_match repoGitPattern u = None"
proof -
  have "repoGitPattern = repoPattern @ [Lit (js ''.git'')]"
    by (simp add: repoGitPattern_def repoPattern_def)
  then show "str_match repoPattern u = None \<Longrightarrow> str_match repoGitPattern u = None"
    using str_match_shorter [of repoPattern "[Lit (js ''.git'')]" u]
    by (cases "str_match repoGitPattern u") auto
qed

text \<open>
  A match has one capture for every group of the pattern, and no capture is empty. The
  indices \<open>0\<close> and \<open>1\<close>, which the steps read, are therefore in range.
\<close>

lemma matchHere_groups:
  "matchHere p s = Some caps \<Longrightarrow>
   length caps = length (filter (\<lambda>i. case i of Cap _ \<Rightarrow> True | Lit _ \<Rightarrow> False) p) \<and>
   list_all (\<lambda>g. g \<noteq> []) caps"
proof (induction p s arbitrary: caps rule: matchHere.induct)
  case (1 s)
  then show ?case by simp
next
  case (2 l rest s)
  then show ?case by (auto split: if_splits)
next
  case (3 cls rest s)
  define ns where "ns = rev [1 ..< Suc (length (takeWhile cls s))]"
  from "3.prems"
  have "firstSome (map (\<lambda>n. map_option ((#) (take n s)) (matchHere rest (drop n s))) ns) = Some caps"
    unfolding ns_def by (simp only: matchHere.simps)
  then have "Some caps \<in> set (map (\<lambda>n. map_option ((#) (take n s)) (matchHere rest (drop n s))) ns)"
    by (rule firstSome_Some)
  then obtain n where n: "n \<in> set ns"
    and "Some caps = map_option ((#) (take n s)) (matchHere rest (drop n s))"
    unfolding set_map by blast
  then obtain c0 where c0: "matchHere rest (drop n s) = Some c0" and caps: "caps = take n s # c0"
    by (cases "matchHere rest (drop n s)") auto
  have "1 \<le> n" and "n \<le> length (takeWhile cls s)" using n by (auto simp: ns_def)
  moreover have "length (takeWhile cls s) \<le> length s" by (rule length_takeWhile_le)
  ultimately have "take n s \<noteq> []" by auto
  then show ?case using "3.IH" [OF n [unfolded ns_def] c0] caps by simp
qed

lemma str_match_groups:
  "str_match p s = Some caps \<Longrightarrow>
   length caps = length (filter (\<lambda>i. case i of Cap _ \<Rightarrow> True | Lit _ \<Rightarrow> False) p) \<and>
   list_all (\<lambda>g. g \<noteq> []) caps"
proof (induction s)
  case Nil
  then show ?case using matchHere_groups [of p "[]" caps] by simp
next
  case (Cons a s)
  then show ?case using matchHere_groups [of p "a # s" caps]
    by (cases "matchHere p (a # s)") auto
qed

lemma diffPattern_groups: "str_match diffPattern s = Some m \<Longrightarrow> length m = 2"
  using str_match_groups [of diffPattern s m] by (simp add: diffPattern_def)

lemma repoPattern_groups: "str_match repoPattern s = Some m \<Longrightarrow> length m = 2"
  using str_match_groups [of repoPattern s m] by (simp add: repoPattern_def)

lemma repoGitPattern_groups: "str_match repoGitPattern s = Some m \<Longrightarrow> length m = 2"
  using str_match_groups [of repoGitPattern s m] by (simp add: repoGitPattern_def)

lemma endsWith_git: "endsWith (seg @ js ''.git'') (js ''.git'')"
  by (simp add: endsWith_def suffix_def)

lemma cut_git: "take (length (seg @ js ''.git'') - 4) (seg @ js ''.git'') = seg"
  by (simp add: js_def)

section \<open>Statistics\<close>

text \<open>
  The two \<^verbatim>\<open>reduce\<close> calls are sums. On the remote path the statistics and the
  file records are those of the response.
\<close>

lemma foldl_plus: "foldl (\<lambda>sum x. sum + f x) (a::nat) xs = a + sum_list (map f xs)"
  by (induction xs arbitrary: a) auto

lemma aggregate_sums:
  "aggregate fs =
     \<lparr>stats_additions = sum_list (map additions fs),
      stats_deletions = sum_list (map deletions fs),
      stats_total = sum_list (map additions fs) + sum_list (map deletions fs)\<rparr>"
  by (simp add: aggregate_def Let_def foldl_plus)

lemma reshape_files: "files (reshape owner repo d) = detail_files d"
  by (simp add: reshape_def map_idI)

lemma reshape_stats: "stats (reshape owner repo d) = detail_stats d"
  by (simp add: reshape_def)

lemma tryFetch_Inr:
  "tryFetch env owner repo = Inr cd \<Longrightarrow>
   \<exists>u r d. fetchDetail env u = Inr r \<and> ok r \<and> json r = Inr d \<and> cd = reshape owner repo d"
  by (auto simp: tryFetch_def split: sum.splits if_splits list.splits)

section \<open>The claims\<close>

text \<open>
  Claim C1, as amended. For every commit detail that normalization produces from an
  input without \<open>repoUrl\<close> (the local diff), the total of the statistics is the sum of
  their additions and deletions, the additions are the sum of the additions of the
  files, and the deletions are the sum of the deletions of the files. For an input with
  \<open>repoUrl\<close> (the remote commit), the statistics and the file records are those of
  the body of a successful response of the commit-detail request, unchanged.
\<close>

theorem stats_of_normalized_detail:
  assumes "normalize env inp = Inr cd"
  shows "(repoUrl inp = None \<longrightarrow>
            stats_total (stats cd) = stats_additions (stats cd) + stats_deletions (stats cd) \<and>
            stats_additions (stats cd) = sum_list (map additions (files cd)) \<and>
            stats_deletions (stats cd) = sum_list (map deletions (files cd)))
       \<and> (repoUrl inp \<noteq> None \<longrightarrow>
            (\<exists>u r d. fetchDetail env u = Inr r \<and> ok r \<and> json r = Inr d \<and>
               stats cd = detail_stats d \<and> files cd = detail_files d))"
proof (cases "repoUrl inp")
  case None
  with assms obtain d where "diffContent inp = Some d"
    by (cases "diffContent inp") (simp_all add: normalize_def)
  with assms None have "stats cd = aggregate (files cd)"
    by (auto simp: normalize_def Let_def)
  then show ?thesis using None by (simp add: aggregate_sums)
next
  case (Some u)
  with assms obtain owner repo where "tryFetch env owner repo = Inr cd"
    by (auto simp: normalize_def split: prod.splits if_splits sum.splits)
  from tryFetch_Inr [OF this] obtain v r d
    where "fetchDetail env v = Inr r" and "ok r" and "json r = Inr d"
      and "cd = reshape owner repo d"
    by blast
  then have "fetchDetail env v = Inr r \<and> ok r \<and> json r = Inr d \<and>
      stats cd = detail_stats d \<and> files cd = detail_files d"
    by (simp add: reshape_files reshape_stats)
  then have "\<exists>u r d. fetchDetail env u = Inr r \<and> ok r \<and> json r = Inr d \<and>
      stats cd = detail_stats d \<and> files cd = detail_files d"
    by blast
  then show ?thesis using Some by simp
qed

text \<open>
  The claim as first stated also promised the three equations on the remote path. They
  fail there whenever the response itself does not satisfy them: for \<open>sampleEnv\<close> the
  statistics count three additions and the files one.
\<close>

theorem stats_of_remote_detail_counterexample:
  "normalize sampleEnv (shapeA (js ''https://github.com/acme/widgets'')) =
     Inr (reshape (js ''acme'') (js ''widgets'') sampleDetail) \<and>
   stats_additions (stats (reshape (js ''acme'') (js ''widgets'') sampleDetail)) = 3 \<and>
   sum_list (map additions (files (reshape (js ''acme'') (js ''widgets'') sampleDetail))) = 1"
proof -
  have "parseRepoUrl (Some (shapeA (js ''https://github.com/acme/widgets''))) =
     Inr (RepoInfo (js ''acme'') (js ''widgets'') (js ''https://github.com/acme/widgets''))"
    by code_simp
  then have "normalize sampleEnv (shapeA (js ''https://github.com/acme/widgets'')) =
     Inr (reshape (js ''acme'') (js ''widgets'') sampleDetail)"
    by (simp add: normalize_def tryFetch_def sampleEnv_def okResponse_def)
  then show ?thesis by (simp add: reshape_def sampleDetail_def)
qed

theorem stats_of_normalized_detail_witness:
  "normalize sampleEnv (shapeB scenarioDiff) =
     Inr \<lparr>sha = js ''direct-diff'', message_of = js ''Direct diff review'',
          author = js ''Unknown'', date = now sampleEnv, url = [],
          stats = aggregate (parseDiff scenarioDiff), files = parseDiff scenarioDiff\<rparr> \<and>
   stats_total (aggregate (parseDiff scenarioDiff)) =
     stats_additions (aggregate (parseDiff scenarioDiff)) +
     stats_deletions (aggregate (parseDiff scenarioDiff)) \<and>
   stats_additions (aggregate (parseDiff scenarioDiff)) =
     sum_list (map additions (parseDiff scenarioDiff)) \<and>
   stats_deletions (aggregate (parseDiff scenarioDiff)) =
     sum_list (map deletions (parseDiff scenarioDiff)) \<and>
   normalize sampleEnv (shapeA (js ''https://github.com/acme/widgets'')) =
     Inr (reshape (js ''acme'') (js ''widgets'') sampleDetail) \<and>
   (\<exists>u r d. fetchDetail sampleEnv u = Inr r \<and> ok r \<and> json r = Inr d \<and>
      stats (reshape (js ''acme'') (js ''widgets'') sampleDetail) = detail_stats d \<and>
      files (reshape (js ''acme'') (js ''widgets'') sampleDetail) = detail_files d)"
proof -
  have b: "normalize sampleEnv (shapeB scenarioDiff) =
     Inr \<lparr>sha = js ''direct-diff'', message_of = js ''Direct diff review'',
          author = js ''Unknown'', date = now sampleEnv, url = [],
          stats = aggregate (parseDiff scenarioDiff), files = parseDiff scenarioDiff\<rparr>"
    by (simp add: normalize_def shapeB_def orElse_def Let_def)
  have nb: "repoUrl (shapeB scenarioDiff) = None" by (simp add: shapeB_def)
  have "parseRepoUrl (Some (shapeA (js ''https://github.com/acme/widgets''))) =
     Inr (RepoInfo (js ''acme'') (js ''widgets'') (js ''https://github.com/acme/widgets''))"
    by code_simp
  then have a: "normalize sampleEnv (shapeA (js ''https://github.com/acme/widgets'')) =
     Inr (reshape (js ''acme'') (js ''widgets'') sampleDetail)"
    by (simp add: normalize_def tryFetch_def sampleEnv_def okResponse_def)
  have na: "repoUrl (shapeA (js ''https://github.com/acme/widgets'')) \<noteq> None"
    by (simp add: shapeA_def)
  show ?thesis
    using a b stats_of_normalized_detail [OF b] stats_of_normalized_detail [OF a] nb na
    by simp
qed

text \<open>
  Claim C2. Parsing the diff text of the first end-to-end scenario yields exactly one
  file change, with file name \<^verbatim>\<open>src/a.js\<close>, one addition, one deletion, two changes
  and status \<^verbatim>\<open>modified\<close>; the aggregate statistics are one addition, one deletion
  and a total of two.
\<close>

theorem scenario1_parse:
  "parseDiff scenarioDiff =
     [\<lparr>filename = js ''src/a.js'', additions = 1, deletions = 1, changes = 2,
       status = js ''modified'', patch = Some (scenarioDiff @ js ''\<newline>'')\<rparr>]
   \<and> aggregate (parseDiff scenarioDiff) =
     \<lparr>stats_additions = 1, stats_deletions = 1, stats_total = 2\<rparr>"
  by code_simp

text \<open>
  Claim C3. An input that has the field \<open>repoUrl\<close> takes the remote path, whatever
  its other fields are: the run is that of the input with \<open>repoUrl\<close> alone, and it
  ends with the rejection of the URL or with the outcome of the remote requests. An
  input without \<open>repoUrl\<close> takes the local path, and for every \<open>diffContent\<close>, diff
  text or not, the run ends with a commit detail whose files are those that the scanner
  finds.
\<close>

theorem input_shape_selects_path:
  "(repoUrl inp = Some u \<longrightarrow>
      normalize env inp = normalize env (shapeA u) \<and>
      normalize env inp =
        (case tryPatterns patterns u of
           (owner, repo) \<Rightarrow>
             if owner = [] \<or> repo = []
             then Inl (Error (js ''Invalid GitHub URL format: '' @ u))
             else (case tryFetch env owner repo of
                     Inl e \<Rightarrow> Inl (rethrow e)
                   | Inr detail \<Rightarrow> Inr detail)))
   \<and> (repoUrl inp = None \<and> diffContent inp = Some d \<longrightarrow>
      normalize env inp =
        Inr \<lparr>sha = orElse (commitSha inp) (js ''direct-diff''),
             message_of = orElse (commitMessage inp) (js ''Direct diff review''),
             author = orElse (authorName inp) (js ''Unknown''),
             date = now env, url = [],
             stats = aggregate (parseDiff d), files = parseDiff d\<rparr>)"
  by (auto simp: normalize_def shapeA_def Let_def split: prod.splits)

theorem input_shape_selects_path_witness:
  "repoUrl bothShapes = Some (js ''https://github.com/acme/widgets'') \<and>
   diffContent bothShapes = Some scenarioDiff \<and>
   normalize sampleEnv bothShapes =
     normalize sampleEnv (shapeA (js ''https://github.com/acme/widgets'')) \<and>
   normalize sampleEnv bothShapes = Inr (reshape (js ''acme'') (js ''widgets'') sampleDetail) \<and>
   repoUrl (shapeB (js ''this is no diff'')) = None \<and>
   normalize sampleEnv (shapeB (js ''this is no diff'')) =
     Inr \<lparr>sha = js ''direct-diff'', message_of = js ''Direct diff review'',
          author = js ''Unknown'', date = now sampleEnv, url = [],
          stats = \<lparr>stats_additions = 0, stats_deletions = 0, stats_total = 0\<rparr>,
          files = []\<rparr>"
proof -
  have u: "repoUrl bothShapes = Some (js ''https://github.com/acme/widgets'')"
    and d: "diffContent bothShapes = Some scenarioDiff"
    by (simp_all add: bothShapes_def)
  have t: "tryPatterns patterns (js ''https://github.com/acme/widgets'') =
      (js ''acme'', js ''widgets'')"
    by code_simp
  have ne: "js ''acme'' \<noteq> [] \<and> js ''widgets'' \<noteq> []" by (simp add: js_def)
  have f: "tryFetch sampleEnv (js ''acme'') (js ''widgets'') =
      Inr (reshape (js ''acme'') (js ''widgets'') sampleDetail)"
    by (simp add: tryFetch_def sampleEnv_def okResponse_def)
  have a: "normalize sampleEnv bothShapes =
     normalize sampleEnv (shapeA (js ''https://github.com/acme/widgets'')) \<and>
     normalize sampleEnv bothShapes = Inr (reshape (js ''acme'') (js ''widgets'') sampleDetail)"
  proof -
    from input_shape_selects_path [of bothShapes "js ''https://github.com/acme/widgets''" sampleEnv] u
    have same: "normalize sampleEnv bothShapes =
        normalize sampleEnv (shapeA (js ''https://github.com/acme/widgets''))"
      and unfolded: "normalize sampleEnv bothShapes =
        (case tryPatterns patterns (js ''https://github.com/acme/widgets'') of
           (owner, repo) \<Rightarrow>
             if owner = [] \<or> repo = []
             then Inl (Error (js ''Invalid GitHub URL format: '' @ js ''https://github.com/acme/widgets''))
             else (case tryFetch sampleEnv owner repo of
                     Inl e \<Rightarrow> Inl (rethrow e)
                   | Inr detail \<Rightarrow> Inr detail))"
      by blast+
    from unfolded have "normalize sampleEnv bothShapes =
        Inr (reshape (js ''acme'') (js ''widgets'') sampleDetail)"
      using ne by (simp only: t f prod.case sum.case if_False simp_thms)
    with same show ?thesis by blast
  qed
  have n: "repoUrl (shapeB (js ''this is no diff'')) = None"
    and dn: "diffContent (shapeB (js ''this is no diff'')) = Some (js ''this is no diff'')"
    by (simp_all add: shapeB_def)
  have p: "parseDiff (js ''this is no diff'') = []" by code_simp
  have o: "orElse None (js ''direct-diff'') = js ''direct-diff'' \<and>
      orElse None (js ''Direct diff review'') = js ''Direct diff review'' \<and>
      orElse None (js ''Unknown'') = js ''Unknown''"
    by (simp add: orElse_def)
  have c: "commitSha (shapeB (js ''this is no diff'')) = None \<and>
      commitMessage (shapeB (js ''this is no diff'')) = None \<and>
      authorName (shapeB (js ''this is no diff'')) = None"
    by (simp add: shapeB_def)
  have g: "aggregate [] = \<lparr>stats_additions = 0, stats_deletions = 0, stats_total = 0\<rparr>"
    by (simp add: aggregate_def)
  have b: "normalize sampleEnv (shapeB (js ''this is no diff'')) =
     Inr \<lparr>sha = js ''direct-diff'', message_of = js ''Direct diff review'',
          author = js ''Unknown'', date = now sampleEnv, url = [],
          stats = \<lparr>stats_additions = 0, stats_deletions = 0, stats_total = 0\<rparr>,
          files = []\<rparr>"
    using input_shape_selects_path [of "shapeB (js ''this is no diff'')" _ sampleEnv
        "js ''this is no diff''"] n dn p o c g
    by simp
  show ?thesis using u d a n b by blast
qed

text \<open>
  Claim C4. When the response to the commit-list request, or, after a successful list
  with a first commit, the response to the commit-detail request, is not a success, the
  remote path fails with an error whose message holds the numeric status and the reason
  text behind the prefixes \<^verbatim>\<open>Failed to fetch commit details: \<close> and
  \<^verbatim>\<open>GitHub API error: \<close>. No commit detail is returned.
\<close>

theorem remote_failure_status:
  "(fetchCommits env (commitsUrl owner repo) = Inr r \<and> \<not> ok r \<longrightarrow>
      routeStep env (Some (RepoInfo owner repo u)) =
        Inl (Error (js ''Failed to fetch commit details: GitHub API error: '' @
                    js (showNat (status_code r)) @ js '' '' @ statusText r)))
   \<and> (fetchCommits env (commitsUrl owner repo) = Inr r \<and> ok r \<and> json r = Inr (c # cs) \<and>
       fetchDetail env (detailUrl owner repo (listed_sha c)) = Inr r' \<and> \<not> ok r' \<longrightarrow>
      routeStep env (Some (RepoInfo owner repo u)) =
        Inl (Error (js ''Failed to fetch commit details: GitHub API error: '' @
                    js (showNat (status_code r')) @ js '' '' @ statusText r')))"
  by (simp add: tryFetch_def rethrow_def apiError_def js_def)

theorem remote_failure_status_witness:
  "routeStep notFoundEnv
     (Some (RepoInfo (js ''acme'') (js ''widgets'') (js ''https://github.com/acme/widgets''))) =
     Inl (Error (js ''Failed to fetch commit details: GitHub API error: 404 Not Found''))
   \<and> routeStep forbiddenEnv
     (Some (RepoInfo (js ''acme'') (js ''widgets'') (js ''https://github.com/acme/widgets''))) =
     Inl (Error (js ''Failed to fetch commit details: GitHub API error: 403 Forbidden''))"
proof -
  have a: "fetchCommits notFoundEnv (commitsUrl (js ''acme'') (js ''widgets'')) =
      Inr (failedResponse 404 ''Not Found'' []) \<and> \<not> ok (failedResponse 404 ''Not Found'' [])"
    by (simp add: notFoundEnv_def failedResponse_def)
  have b: "fetchCommits forbiddenEnv (commitsUrl (js ''acme'') (js ''widgets'')) =
      Inr (okResponse [\<lparr>listed_sha = js ''abc123''\<rparr>]) \<and>
      ok (okResponse [\<lparr>listed_sha = js ''abc123''\<rparr>]) \<and>
      json (okResponse [\<lparr>listed_sha = js ''abc123''\<rparr>]) = Inr [\<lparr>listed_sha = js ''abc123''\<rparr>] \<and>
      fetchDetail forbiddenEnv
        (detailUrl (js ''acme'') (js ''widgets'') (listed_sha \<lparr>listed_sha = js ''abc123''\<rparr>)) =
      Inr (failedResponse 403 ''Forbidden'' sampleDetail) \<and>
      \<not> ok (failedResponse 403 ''Forbidden'' sampleDetail)"
    by (simp add: forbiddenEnv_def sampleEnv_def failedResponse_def okResponse_def)
  have s: "showNat 404 = ''404''" "showNat 403 = ''403''" by code_simp+
  have m: "js ''Failed to fetch commit details: GitHub API error: '' @ js ''404'' @ js '' '' @
        js ''Not Found'' =
      js ''Failed to fetch commit details: GitHub API error: 404 Not Found''"
    "js ''Failed to fetch commit details: GitHub API error: '' @ js ''403'' @ js '' '' @
        js ''Forbidden'' =
      js ''Failed to fetch commit details: GitHub API error: 403 Forbidden''"
    by (simp_all add: js_def)
  have sc: "status_code (failedResponse 404 ''Not Found'' ([] :: listedCommit list)) = 404"
    "status_code (failedResponse 403 ''Forbidden'' sampleDetail) = 403"
    "statusText (failedResponse 404 ''Not Found'' ([] :: listedCommit list)) = js ''Not Found''"
    "statusText (failedResponse 403 ''Forbidden'' sampleDetail) = js ''Forbidden''"
    by (simp_all add: failedResponse_def)
  from a remote_failure_status [of notFoundEnv "js ''acme''" "js ''widgets''"
        "failedResponse 404 ''Not Found'' []" "js ''https://github.com/acme/widgets''"]
  have "routeStep notFoundEnv
     (Some (RepoInfo (js ''acme'') (js ''widgets'') (js ''https://github.com/acme/widgets''))) =
     Inl (Error (js ''Failed to fetch commit details: GitHub API error: '' @
       js (showNat (status_code (failedResponse 404 ''Not Found'' ([] :: listedCommit list)))) @
       js '' '' @ statusText (failedResponse 404 ''Not Found'' ([] :: listedCommit list))))"
    by blast
  then have first: "routeStep notFoundEnv
     (Some (RepoInfo (js ''acme'') (js ''widgets'') (js ''https://github.com/acme/widgets''))) =
     Inl (Error (js ''Failed to fetch commit details: GitHub API error: 404 Not Found''))"
    by (simp only: sc s m)
  from b remote_failure_status [of forbiddenEnv "js ''acme''" "js ''widgets''"
        "okResponse [\<lparr>listed_sha = js ''abc123''\<rparr>]" "js ''https://github.com/acme/widgets''"
        "\<lparr>listed_sha = js ''abc123''\<rparr>" "[]" "failedResponse 403 ''Forbidden'' sampleDetail"]
  have "routeStep forbiddenEnv
     (Some (RepoInfo (js ''acme'') (js ''widgets'') (js ''https://github.com/acme/widgets''))) =
     Inl (Error (js ''Failed to fetch commit details: GitHub API error: '' @
       js (showNat (status_code (failedResponse 403 ''Forbidden'' sampleDetail))) @
       js '' '' @ statusText (failedResponse 403 ''Forbidden'' sampleDetail)))"
    by blast
  then have second: "routeStep forbiddenEnv
     (Some (RepoInfo (js ''acme'') (js ''widgets'') (js ''https://github.com/acme/widgets''))) =
     Inl (Error (js ''Failed to fetch commit details: GitHub API error: 403 Forbidden''))"
    by (simp only: sc s m)
  from first second show ?thesis by blast
qed

text \<open>
  Claim C5 says that an empty commit list makes the request fail with an error that
  names the empty list. The step has no test for the empty list: it fails when it reads
  \<^verbatim>\<open>sha\<close> of the missing first commit, and the error that leaves the step carries
  the engine's message for that read behind the prefix of the \<^verbatim>\<open>catch\<close> clause. No
  commit detail is produced.
\<close>

theorem empty_commit_list_error:
  assumes "fetchCommits env (commitsUrl owner repo) = Inr r" and "ok r" and "json r = Inr []"
  shows "routeStep env (Some (RepoInfo owner repo u)) =
     Inl (Error (js ''Failed to fetch commit details: '' @ undefinedRead ''sha''))"
  using assms by (simp add: tryFetch_def rethrow_def)

theorem empty_commit_list_error_witness:
  "fetchCommits emptyListEnv (commitsUrl (js ''acme'') (js ''widgets'')) = Inr (okResponse []) \<and>
   routeStep emptyListEnv
     (Some (RepoInfo (js ''acme'') (js ''widgets'') (js ''https://github.com/acme/widgets''))) =
     Inl (Error (js ''Failed to fetch commit details: Cannot read properties of undefined (reading 'sha')''))"
proof -
  have f: "fetchCommits emptyListEnv (commitsUrl (js ''acme'') (js ''widgets'')) =
      Inr (okResponse [])"
    by (simp add: emptyListEnv_def)
  have k: "ok (okResponse ([] :: listedCommit list))"
    and j: "json (okResponse ([] :: listedCommit list)) = Inr []"
    by (simp_all add: okResponse_def)
  have m: "js ''Failed to fetch commit details: '' @ undefinedRead ''sha'' =
      js ''Failed to fetch commit details: Cannot read properties of undefined (reading 'sha')''"
    by (simp add: js_def undefinedRead_def)
  show ?thesis
    using f empty_commit_list_error [OF f k j, of "js ''https://github.com/acme/widgets''"] m
    by simp
qed

text \<open>
  Claim C6. For every diff text, the loop appends every line, marker lines too, with a
  line feed to the patch text of the open section, which a marker line empties first.
  So the file changes that the parser emits are, in order, the sections whose marker
  yields a non-empty file name, and the patch of each is its own marker line followed by
  the lines up to, and without, the next marker, every line followed by a line feed.
  Lines before the first marker belong to no section and are in no patch: the parser
  emits what it emits without them.
\<close>

theorem patch_is_section_text:
  "sc_patch (scanLine st line) =
     (if isMarker line then [] else sc_patch st) @ line @ js ''\<newline>''
   \<and> map (\<lambda>f. (filename f, patch f)) (parseDiff text) =
       map (\<lambda>sec. (markerName (fst sec), Some (spec_patch (fst sec # snd sec))))
         (filter (\<lambda>sec. markerName (fst sec) \<noteq> []) (spec_sections (split_nl text)))
   \<and> (list_all (\<lambda>l. \<not> isMarker l) pre \<and> split_nl text = pre @ rest
        \<longrightarrow> parseDiff text = parseLines rest)"
proof -
  have step: "sc_patch (scanLine st line) =
     (if isMarker line then [] else sc_patch st) @ line @ js ''\<newline>''"
    by (cases "isMarker line") (simp_all add: scanLine_marker scanLine_plain)
  have "(\<lambda>f. (filename f, patch f)) \<circ> spec_file =
        (\<lambda>sec. (markerName (fst sec), Some (spec_patch (fst sec # snd sec))))"
    by (rule ext) (simp add: spec_file_def)
  moreover have "spec_emitted = (\<lambda>sec. markerName (fst sec) \<noteq> [])"
    by (rule ext) (simp add: spec_emitted_def)
  ultimately have secs: "map (\<lambda>f. (filename f, patch f)) (parseDiff text) =
       map (\<lambda>sec. (markerName (fst sec), Some (spec_patch (fst sec # snd sec))))
         (filter (\<lambda>sec. markerName (fst sec) \<noteq> []) (spec_sections (split_nl text)))"
    by (simp add: parseDiff_def parseLines_sections)
  have lead: "parseDiff text = parseLines rest"
    if "list_all (\<lambda>l. \<not> isMarker l) pre" and "split_nl text = pre @ rest"
    using that by (simp add: parseDiff_def parseLines_sections spec_sections_skip)
  show ?thesis using step secs lead by blast
qed

theorem patch_is_section_text_witness:
  "list_all (\<lambda>l. \<not> isMarker l) [js ''From: a contributor'', js ''+not in any file''] \<and>
   split_nl preambleDiff =
     [js ''From: a contributor'', js ''+not in any file''] @
     [js ''diff --git a/x.js b/x.js'', js ''+a''] \<and>
   parseDiff preambleDiff = parseLines [js ''diff --git a/x.js b/x.js'', js ''+a''] \<and>
   parseDiff preambleDiff =
     [\<lparr>filename = js ''x.js'', additions = 1, deletions = 0, changes = 1,
       status = js ''modified'',
       patch = Some (js ''diff --git a/x.js b/x.js\<newline>+a\<newline>'')\<rparr>]"
proof -
  have p: "list_all (\<lambda>l. \<not> isMarker l) [js ''From: a contributor'', js ''+not in any file'']"
    by code_simp
  have s: "split_nl preambleDiff =
     [js ''From: a contributor'', js ''+not in any file''] @
     [js ''diff --git a/x.js b/x.js'', js ''+a'']"
    by code_simp
  have v: "parseDiff preambleDiff =
     [\<lparr>filename = js ''x.js'', additions = 1, deletions = 0, changes = 1,
       status = js ''modified'',
       patch = Some (js ''diff --git a/x.js b/x.js\<newline>+a\<newline>'')\<rparr>]"
    by code_simp
  from p s patch_is_section_text [of _ _ preambleDiff
      "[js ''From: a contributor'', js ''+not in any file'']"
      "[js ''diff --git a/x.js b/x.js'', js ''+a'']"]
  have "parseDiff preambleDiff = parseLines [js ''diff --git a/x.js b/x.js'', js ''+a'']"
    by blast
  with p s v show ?thesis by blast
qed

text \<open>
  Claim C7. When the pattern for the owner and the repository finds no match in
  \<open>repoUrl\<close>, normalization fails with the error whose message is
  \<^verbatim>\<open>Invalid GitHub URL format: \<close> followed by the URL, and no commit detail is
  produced.
\<close>

theorem invalid_url_rejected:
  assumes "repoUrl inp = Some u" and "str_match repoPattern u = None"
  shows "normalize env inp = Inl (Error (js ''Invalid GitHub URL format: '' @ u))"
  using assms repoGitPattern_fails [of u]
  by (simp add: normalize_def patterns_def)

theorem invalid_url_rejected_witness:
  "str_match repoPattern (js ''not-a-github-url'') = None \<and>
   normalize sampleEnv (shapeA (js ''not-a-github-url'')) =
     Inl (Error (js ''Invalid GitHub URL format: '' @ js ''not-a-github-url''))"
proof -
  have u: "repoUrl (shapeA (js ''not-a-github-url'')) = Some (js ''not-a-github-url'')"
    by (simp add: shapeA_def)
  have n: "str_match repoPattern (js ''not-a-github-url'') = None" by code_simp
  show ?thesis using n invalid_url_rejected [OF u n, of sampleEnv] by blast
qed

text \<open>
  Claim C8. URL extraction maps \<^verbatim>\<open>https://github.com/acme/widgets.git\<close> to the owner
  \<^verbatim>\<open>acme\<close> and the repository \<^verbatim>\<open>widgets\<close>, and
  \<^verbatim>\<open>https://github.com/acme/widgets\<close> to the same owner and repository. In general,
  when the repository segment that the pattern captures ends with \<^verbatim>\<open>.git\<close>, these
  four characters are cut off: the step returns the rest as the repository, and rejects
  the URL when nothing is left.
\<close>

theorem git_suffix_stripped:
  "parseRepoUrl (Some (shapeA (js ''https://github.com/acme/widgets.git''))) =
     Inr (RepoInfo (js ''acme'') (js ''widgets'') (js ''https://github.com/acme/widgets.git''))
   \<and> parseRepoUrl (Some (shapeA (js ''https://github.com/acme/widgets''))) =
     Inr (RepoInfo (js ''acme'') (js ''widgets'') (js ''https://github.com/acme/widgets''))
   \<and> (repoUrl inp = Some u \<and> str_match repoPattern u = Some [owner, seg @ js ''.git'']
        \<longrightarrow> parseRepoUrl (Some inp) =
          (if seg = [] then Inl (Error (js ''Invalid GitHub URL format: '' @ u))
           else Inr (RepoInfo owner seg u)))"
proof -
  have a: "parseRepoUrl (Some (shapeA (js ''https://github.com/acme/widgets.git''))) =
     Inr (RepoInfo (js ''acme'') (js ''widgets'') (js ''https://github.com/acme/widgets.git''))"
    by code_simp
  have b: "parseRepoUrl (Some (shapeA (js ''https://github.com/acme/widgets''))) =
     Inr (RepoInfo (js ''acme'') (js ''widgets'') (js ''https://github.com/acme/widgets''))"
    by code_simp
  have c: "parseRepoUrl (Some inp) =
          (if seg = [] then Inl (Error (js ''Invalid GitHub URL format: '' @ u))
           else Inr (RepoInfo owner seg u))"
    if u: "repoUrl inp = Some u" and m: "str_match repoPattern u = Some [owner, seg @ js ''.git'']"
  proof -
    have "owner \<noteq> []" using str_match_groups [OF m] by simp
    moreover have "tryPatterns patterns u = (owner, seg)"
      using m by (simp add: patterns_def Let_def endsWith_git cut_git del: length_append take_append)
    ultimately show ?thesis using u by simp
  qed
  show ?thesis using a b c by blast
qed

theorem git_suffix_stripped_witness:
  "repoUrl (shapeA (js ''https://github.com/acme/widgets.git'')) =
     Some (js ''https://github.com/acme/widgets.git'') \<and>
   str_match repoPattern (js ''https://github.com/acme/widgets.git'') =
     Some [js ''acme'', js ''widgets'' @ js ''.git''] \<and>
   parseRepoUrl (Some (shapeA (js ''https://github.com/acme/widgets.git''))) =
     (if js ''widgets'' = [] then
        Inl (Error (js ''Invalid GitHub URL format: '' @ js ''https://github.com/acme/widgets.git''))
      else Inr (RepoInfo (js ''acme'') (js ''widgets'') (js ''https://github.com/acme/widgets.git'')))"
proof -
  have u: "repoUrl (shapeA (js ''https://github.com/acme/widgets.git'')) =
     Some (js ''https://github.com/acme/widgets.git'')" by (simp add: shapeA_def)
  have m: "str_match repoPattern (js ''https://github.com/acme/widgets.git'') =
     Some [js ''acme'', js ''widgets'' @ js ''.git'']" by code_simp
  show ?thesis
    using u m git_suffix_stripped [of "shapeA (js ''https://github.com/acme/widgets.git'')"
        "js ''https://github.com/acme/widgets.git''" "js ''acme''" "js ''widgets''"]
    by blast
qed

text \<open>
  Claim C9. An input without \<open>repoUrl\<close> that supplies \<open>diffContent\<close> but none of
  \<open>commitSha\<close>, \<open>author\<close> and \<open>commitMessage\<close> produces a commit detail with sha
  \<^verbatim>\<open>direct-diff\<close>, author \<^verbatim>\<open>Unknown\<close>, the fallback message
  \<^verbatim>\<open>Direct diff review\<close> and the empty string as url.
\<close>

theorem shape_b_defaults:
  assumes "repoUrl inp = None" and "diffContent inp = Some d"
    and "commitSha inp = None" and "authorName inp = None" and "commitMessage inp = None"
  shows "\<exists>cd. normalize env inp = Inr cd \<and> sha cd = js ''direct-diff'' \<and>
     author cd = js ''Unknown'' \<and> message_of cd = js ''Direct diff review'' \<and> url cd = []"
  using assms by (simp add: normalize_def orElse_def Let_def)

theorem shape_b_defaults_witness:
  "\<exists>cd. normalize sampleEnv (shapeB scenarioDiff) = Inr cd \<and> sha cd = js ''direct-diff'' \<and>
     author cd = js ''Unknown'' \<and> message_of cd = js ''Direct diff review'' \<and> url cd = []"
  using shape_b_defaults [of "shapeB scenarioDiff" scenarioDiff sampleEnv]
  by (simp add: shapeB_def)

text \<open>
  Claim C10. When a line begins with \<^verbatim>\<open>diff --git\<close> but the pattern finds no match in
  it, the scanner sets the current file name to the empty string; the lines of that
  section are still scanned and counted, but the section is left out of the emitted
  files and of the aggregate statistics: the result is that of the text without the
  section.
\<close>

theorem unmatched_marker_section_dropped:
  assumes m: "isMarker m" and un: "str_match diffPattern m = None"
    and body: "list_all (\<lambda>l. \<not> isMarker l) body"
    and post: "case post of [] \<Rightarrow> True | p # _ \<Rightarrow> isMarker p"
    and lines: "split_nl text = pre @ m # body @ post"
  shows "parseDiff text = parseLines (pre @ post)
     \<and> aggregate (parseDiff text) = aggregate (parseLines (pre @ post))
     \<and> foldl scanLine st (m # body) =
         \<lparr>sc_files = pushCurrent st, sc_currentFile = Some [],
          sc_additions = length (filter isAddition body),
          sc_deletions = length (filter isDeletion body),
          sc_patch = spec_patch (m # body)\<rparr>"
proof -
  have name: "markerName m = []" using un by (simp add: markerName_def)
  have mpost: "case m # body @ post of [] \<Rightarrow> True | p # _ \<Rightarrow> isMarker p" using m by simp
  have "spec_sections (m # body @ post) = (m, body) # spec_sections post"
    using m body post
    by (simp add: takeWhile_before_marker takeWhile_all spec_sections_append spec_sections_plain)
  then have "spec_sections (pre @ m # body @ post) =
             spec_sections pre @ (m, body) # spec_sections post"
    using spec_sections_append [OF mpost, of pre] by simp
  then have files: "parseLines (pre @ m # body @ post) = parseLines (pre @ post)"
    using name post by (simp add: parseLines_sections spec_sections_append spec_emitted_def)
  have state: "foldl scanLine st (m # body) =
         \<lparr>sc_files = pushCurrent st, sc_currentFile = Some [],
          sc_additions = length (filter isAddition body),
          sc_deletions = length (filter isDeletion body),
          sc_patch = spec_patch (m # body)\<rparr>"
    using m body name by (simp add: scanLine_marker foldl_scanLine_plain spec_patch_def)
  show ?thesis using files state lines by (simp add: parseDiff_def)
qed

theorem unmatched_marker_section_dropped_witness:
  "isMarker unmatchedMarker \<and> str_match diffPattern unmatchedMarker = None \<and>
   split_nl unmatchedDiff = unmatchedPre @ unmatchedMarker # unmatchedBody @ unmatchedPost \<and>
   parseDiff unmatchedDiff = parseLines (unmatchedPre @ unmatchedPost) \<and>
   aggregate (parseDiff unmatchedDiff) = aggregate (parseLines (unmatchedPre @ unmatchedPost)) \<and>
   foldl scanLine scanStart (unmatchedMarker # unmatchedBody) =
     \<lparr>sc_files = pushCurrent scanStart, sc_currentFile = Some [],
      sc_additions = length (filter isAddition unmatchedBody),
      sc_deletions = length (filter isDeletion unmatchedBody),
      sc_patch = spec_patch (unmatchedMarker # unmatchedBody)\<rparr> \<and>
   length (filter isAddition unmatchedBody) = 2 \<and>
   aggregate (parseDiff unmatchedDiff) =
     \<lparr>stats_additions = 1, stats_deletions = 1, stats_total = 2\<rparr>"
proof -
  have m: "isMarker unmatchedMarker" by code_simp
  have un: "str_match diffPattern unmatchedMarker = None" by code_simp
  have body: "list_all (\<lambda>l. \<not> isMarker l) unmatchedBody" by code_simp
  have post: "case unmatchedPost of [] \<Rightarrow> True | p # _ \<Rightarrow> isMarker p" by code_simp
  have lines: "split_nl unmatchedDiff =
      unmatchedPre @ unmatchedMarker # unmatchedBody @ unmatchedPost" by code_simp
  have n: "length (filter isAddition unmatchedBody) = 2" by code_simp
  have a: "aggregate (parseDiff unmatchedDiff) =
     \<lparr>stats_additions = 1, stats_deletions = 1, stats_total = 2\<rparr>" by code_simp
  note r = unmatched_marker_section_dropped [OF m un body post lines, of scanStart]
  show ?thesis using m un lines r n a by blast
qed

end
